theory Spec2Isabelle
  imports Main "HOL-Library.Word"
begin

section \<open>Data model\<close>

text \<open>
  The facade class \<open>BlueButton\<close> lives in \<open>index.ts\<close>; \<open>auth.ts\<close> only reads the five
  string fields below, so the facade is the record of these fields.
\<close>

record BlueButton =
  baseUrl :: string
  version :: string
  clientId :: string
  clientSecret :: string
  callbackUrl :: string

text \<open>\<open>type PkceData\<close> and \<open>type AuthData\<close> of \<open>auth.ts\<close>.\<close>

record PkceData =
  pkce_codeChallenge :: string
  pkce_verifier :: string

record AuthData =
  codeChallenge :: string
  verifier :: string
  state :: string

text \<open>
  A JavaScript value as far as \<open>auth.ts\<close> produces one: an optional string parameter
  (\<open>callbackCode?: string\<close>) is \<open>undefined\<close> or a string. An object literal is the
  list of its \<open>key: value\<close> entries in the order they are written; \<open>type TokenPostData\<close>
  is such an object.
\<close>

datatype jsval = Undefined | Str string

type_synonym js_object = "(string \<times> jsval) list"

type_synonym TokenPostData = js_object

text \<open>
  \<open>Object.keys(obj)\<close>, the test \<open>k in obj\<close> and the read \<open>obj[k]\<close> (a key that is
  not there reads as \<open>undefined\<close>).
\<close>

definition Object_keys :: "js_object \<Rightarrow> string list" where
  "Object_keys obj = map fst obj"

definition has_key :: "string \<Rightarrow> js_object \<Rightarrow> bool" where
  "has_key k obj = (k \<in> set (Object_keys obj))"

definition read_prop :: "js_object \<Rightarrow> string \<Rightarrow> jsval" where
  "read_prop obj k = (case map_of obj k of None \<Rightarrow> Undefined | Some v \<Rightarrow> v)"

fun optional :: "string option \<Rightarrow> jsval" where
  "optional None = Undefined"
| "optional (Some s) = Str s"

text \<open>
  Modelled from the spec: the enum \<open>Errors\<close> of \<open>enums/errors\<close> is not among the
  sources. Its members are the names \<open>auth.ts\<close> uses, one tag each, as the error
  taxonomy of the specification lists them. A failure of an operation is an
  \<open>Error\<close> thrown with one of these members, a \<open>TypeError\<close> of the runtime (a property
  read on \<open>undefined\<close>), or whatever \<open>axios.post\<close> rejects with.
\<close>

datatype Errors =
    CALLBACK_ACCESS_DENIED
  | CALLBACK_ACCESS_CODE_MISSING
  | CALLBACK_STATE_MISSING
  | CALLBACK_STATE_DOES_NOT_MATCH
  | AUTH_TOKEN_URL_RESPONSE_DATA_MISSING

datatype failure = Error Errors | TypeError | AxiosError string

section \<open>Random primitives and PKCE data\<close>

type_synonym byte = "8 word"

text \<open>
  \<open>Buffer.toString("base64")\<close> of the runtime: the standard alphabet, three bytes to
  four characters, \<open>=\<close> padding on the last group.
\<close>

definition base64_alphabet :: string where
  "base64_alphabet =
     ''ABCDEFGHIJKLMNOPQRSTUVWXYZabcdefghijklmnopqrstuvwxyz0123456789+/''"

definition sextet :: "nat \<Rightarrow> char" where
  "sextet n = base64_alphabet ! (n mod 64)"

fun toString_base64 :: "byte list \<Rightarrow> string" where
  "toString_base64 [] = []"
| "toString_base64 [a] =
     (let n = unat a * 65536
      in [sextet (n div 262144), sextet (n div 4096), CHR ''='', CHR ''=''])"
| "toString_base64 [a, b] =
     (let n = unat a * 65536 + unat b * 256
      in [sextet (n div 262144), sextet (n div 4096), sextet (n div 64), CHR ''=''])"
| "toString_base64 (a # b # c # rest) =
     (let n = unat a * 65536 + unat b * 256 + unat c
      in [sextet (n div 262144), sextet (n div 4096), sextet (n div 64), sextet n]
         @ toString_base64 rest)"

text \<open>
  \<open>String.prototype.replace\<close> with a global pattern of one literal character: every
  occurrence of the character is replaced by the replacement string.
\<close>

definition replace_g :: "char \<Rightarrow> string \<Rightarrow> string \<Rightarrow> string" where
  "replace_g c r s = concat (map (\<lambda>x. if x = c then r else [x]) s)"

definition base64URLEncode :: "byte list \<Rightarrow> string" where
  "base64URLEncode buffer =
     replace_g (CHR ''='') ''''
       (replace_g (CHR ''/'') ''_''
         (replace_g (CHR ''+'') ''-'' (toString_base64 buffer)))"

text \<open>
  The encoder as the specification words it: standard base64 with \<open>+\<close> replaced by
  \<open>-\<close>, \<open>/\<close> replaced by \<open>_\<close>, and every \<open>=\<close> stripped.
\<close>

definition base64UrlEncode_spec :: "byte list \<Rightarrow> string" where
  "base64UrlEncode_spec bytes =
     filter (\<lambda>c. c \<noteq> CHR ''='')
       (map (\<lambda>c. if c = CHR ''+'' then CHR ''-'' else if c = CHR ''/'' then CHR ''_'' else c)
         (toString_base64 bytes))"

text \<open>
  \<open>sha256\<close> wraps the SHA-256 digest of the \<open>crypto\<close> module,
  \<open>crypto.createHash("sha256").update(str).digest()\<close>, which is the parameter
  \<open>createHash_sha256\<close> here; so are the bytes that \<open>crypto.randomBytes(32)\<close> returns at
  each of its two calls.
\<close>

definition sha256 :: "(string \<Rightarrow> byte list) \<Rightarrow> string \<Rightarrow> byte list" where
  "sha256 createHash_sha256 str = createHash_sha256 str"

definition generatePkceData :: "(string \<Rightarrow> byte list) \<Rightarrow> byte list \<Rightarrow> PkceData" where
  "generatePkceData createHash_sha256 randomBytes32 =
     (let v = base64URLEncode randomBytes32
      in \<lparr> pkce_codeChallenge = base64URLEncode (sha256 createHash_sha256 v),
           pkce_verifier = v \<rparr>)"

definition generateRandomState :: "byte list \<Rightarrow> string" where
  "generateRandomState randomBytes32 = base64URLEncode randomBytes32"

definition generateAuthData ::
  "(string \<Rightarrow> byte list) \<Rightarrow> byte list \<Rightarrow> byte list \<Rightarrow> AuthData" where
  "generateAuthData createHash_sha256 randomBytes32 randomBytes32' =
     (let PkceData = generatePkceData createHash_sha256 randomBytes32
      in \<lparr> codeChallenge = pkce_codeChallenge PkceData,
           verifier = pkce_verifier PkceData,
           state = generateRandomState randomBytes32' \<rparr>)"

section \<open>Authorize URL, token post data, callback validation\<close>

definition getAuthorizationUrl :: "BlueButton \<Rightarrow> string" where
  "getAuthorizationUrl bb = baseUrl bb @ ''/v'' @ version bb @ ''/o/authorize''"

definition generateAuthorizeUrl :: "BlueButton \<Rightarrow> AuthData \<Rightarrow> string" where
  "generateAuthorizeUrl bb AuthData =
     (let pkceParams = ''code_challenge_method=S256&code_challenge='' @ codeChallenge AuthData
      in getAuthorizationUrl bb @ ''?client_id='' @ clientId bb @ ''&redirect_uri=''
         @ callbackUrl bb @ ''&state='' @ state AuthData @ ''&response_type=code&''
         @ pkceParams)"

definition generateTokenPostData ::
  "BlueButton \<Rightarrow> AuthData \<Rightarrow> string option \<Rightarrow> TokenPostData" where
  "generateTokenPostData bb authData callbackCode =
     [ (''client_id'', Str (clientId bb)),
       (''client_secret'', Str (clientSecret bb)),
       (''code'', optional callbackCode),
       (''grant_type'', Str ''authorization_code''),
       (''redirect_uri'', Str (callbackUrl bb)),
       (''code_verifier'', Str (verifier authData)),
       (''code_challenge'', Str (codeChallenge authData)) ]"

text \<open>\<open>!x\<close> on an optional string: true on \<open>undefined\<close> and on the empty string.\<close>

fun falsy :: "string option \<Rightarrow> bool" where
  "falsy None = True"
| "falsy (Some s) = (s = [])"

definition validateCallbackRequestQueryParams ::
  "AuthData \<Rightarrow> string option \<Rightarrow> string option \<Rightarrow> string option \<Rightarrow> failure + unit" where
  "validateCallbackRequestQueryParams authData callbackCode callbackState callbackError =
     (if callbackError = Some ''access_denied'' then Inl (Error CALLBACK_ACCESS_DENIED)
      else if falsy callbackCode then Inl (Error CALLBACK_ACCESS_CODE_MISSING)
      else if falsy callbackState then Inl (Error CALLBACK_STATE_MISSING)
      else if callbackState \<noteq> Some (state authData)
        then Inl (Error CALLBACK_STATE_DOES_NOT_MATCH)
      else Inr ())"

definition getAccessTokenUrl :: "BlueButton \<Rightarrow> string" where
  "getAccessTokenUrl bb = baseUrl bb @ ''/v'' @ version bb @ ''/o/token/''"

section \<open>The authorization token\<close>

text \<open>
  \<open>entities/AuthorizationToken.ts\<close>. The \<open>number\<close> fields are whole numbers (seconds,
  and milliseconds since the epoch), modelled as \<open>int\<close>: on whole numbers of this size
  the arithmetic of the runtime is exact. \<open>expires_at?: number\<close> is optional.
\<close>

record AuthorizationTokenData =
  access_token :: string
  expires_in :: int
  token_type :: string
  scope :: "string list"
  refresh_token :: string
  patient :: string
  expires_at :: "int option"

record AuthorizationToken =
  accessToken :: string
  expiresIn :: int
  expiresAt :: int
  tokenType :: string
  scope :: "string list"
  refreshToken :: string
  patient :: string

text \<open>
  The constructor. \<open>moment()\<close> reads the clock, which is the first parameter;
  \<open>moment().add(n).valueOf()\<close> with a bare number adds \<open>n\<close> milliseconds. The
  conditional \<open>authToken.expires_at ? \<dots> : \<dots>\<close> tests the truthiness of an optional
  number: \<open>undefined\<close> and \<open>0\<close> both take the second branch.
\<close>

fun truthy :: "int option \<Rightarrow> bool" where
  "truthy None = False"
| "truthy (Some n) = (n \<noteq> 0)"

definition AuthorizationToken_constructor ::
  "int \<Rightarrow> AuthorizationTokenData \<Rightarrow> AuthorizationToken" where
  "AuthorizationToken_constructor moment_now authToken =
     (let this_expiresIn = expires_in authToken
      in \<lparr> accessToken = access_token authToken,
           expiresIn = this_expiresIn,
           expiresAt =
             (if truthy (expires_at authToken) then the (expires_at authToken)
              else moment_now + this_expiresIn * 1000),
           tokenType = token_type authToken,
           scope = AuthorizationTokenData.scope authToken,
           refreshToken = refresh_token authToken,
           patient = AuthorizationTokenData.patient authToken \<rparr>)"

definition getTokenData :: "AuthorizationToken \<Rightarrow> AuthorizationTokenData" where
  "getTokenData this =
     \<lparr> access_token = accessToken this,
       expires_in = expiresIn this,
       token_type = tokenType this,
       AuthorizationTokenData.scope = scope this,
       refresh_token = refreshToken this,
       AuthorizationTokenData.patient = patient this,
       expires_at = Some (expiresAt this) \<rparr>"

section \<open>The token exchange and refresh protocols\<close>

text \<open>
  A call \<open>axios.post(url, body, config)\<close> is recorded as the request it hands to the
  transport. The body is a \<open>URLSearchParams\<close> (name and value pairs) or an object
  literal; the config carries the headers, the optional Basic-auth credentials and the
  optional query parameters.
\<close>

datatype request_body = URLSearchParams "(string \<times> string) list" | ObjectLiteral js_object

record BasicAuth =
  username :: string
  password :: string

record http_request =
  url :: string
  body :: request_body
  headers :: "(string \<times> string) list"
  auth :: "BasicAuth option"
  params :: "js_object option"

text \<open>
  \<open>new URLSearchParams(obj)\<close>: one pair for each key of the object, the value turned
  into a string.
\<close>

fun toString :: "jsval \<Rightarrow> string" where
  "toString Undefined = ''undefined''"
| "toString (Str s) = s"

definition URLSearchParams_new :: "js_object \<Rightarrow> request_body" where
  "URLSearchParams_new obj = URLSearchParams (map (\<lambda>(k, v). (k, toString v)) obj)"

text \<open>
  The response of the transport: \<open>resp.data\<close> is the decoded token object, or, for a
  response without a body, the empty string that \<open>axios\<close> yields then (\<open>None\<close>). The
  test \<open>if (resp.data)\<close> holds of every object and fails on the empty string.
\<close>

record response =
  data :: "AuthorizationTokenData option"

fun present :: "AuthorizationTokenData option \<Rightarrow> bool" where
  "present None = False"
| "present (Some d) = True"

text \<open>
  What the module takes from outside: the constant \<open>SDK_HEADERS\<close> of
  \<open>enums/environments\<close> (not among the sources), the transport \<open>axios.post\<close>, which
  answers a request with a response or rejects with a message, and the clock.
\<close>

record env =
  SDK_HEADERS :: "(string \<times> string) list"
  axios_post :: "http_request \<Rightarrow> string + response"
  moment_now :: int

text \<open>
  The instances of the class as they exist at run time. The constructor applied to the
  decoded object gives the token of \<open>AuthorizationToken_constructor\<close>. Applied to the
  empty string it does not throw: every property read on the string
  (\<open>"".access_token\<close> and so on) gives \<open>undefined\<close>, so every field of the instance is
  \<open>undefined\<close> except \<open>expiresAt\<close>; there \<open>expires_at\<close> is \<open>undefined\<close>, hence falsy,
  \<open>this.expiresIn * 1000\<close> is \<open>NaN\<close>, and \<open>moment().add(NaN)\<close> leaves the instant as it
  is, so \<open>expiresAt\<close> is the construction instant.
\<close>

datatype token_object = Token AuthorizationToken | UndefinedFields int

fun construct :: "int \<Rightarrow> AuthorizationTokenData option \<Rightarrow> token_object" where
  "construct instant (Some d) = Token (AuthorizationToken_constructor instant d)"
| "construct instant None = UndefinedFields instant"

text \<open>The read \<open>authToken.refreshToken\<close> on an instance.\<close>

fun get_refreshToken :: "token_object \<Rightarrow> jsval" where
  "get_refreshToken (Token t) = Str (refreshToken t)"
| "get_refreshToken (UndefinedFields t) = Undefined"

text \<open>
  The observable state: the token objects that exist, each at its index, and the
  requests handed to \<open>axios.post\<close> so far, oldest first. \<open>new AuthorizationToken(x)\<close>
  creates an object at a fresh index and returns that index as the reference.
\<close>

record world =
  objects :: "token_object list"
  posted :: "http_request list"

definition deref :: "world \<Rightarrow> nat \<Rightarrow> token_object option" where
  "deref w r = (if r < length (objects w) then Some (objects w ! r) else None)"

definition new_AuthorizationToken ::
  "env \<Rightarrow> world \<Rightarrow> AuthorizationTokenData option \<Rightarrow> nat \<times> world" where
  "new_AuthorizationToken e w x =
     (length (objects w), w\<lparr>objects := objects w @ [construct (moment_now e) x]\<rparr>)"

definition post :: "world \<Rightarrow> http_request \<Rightarrow> world" where
  "post w req = w\<lparr>posted := posted w @ [req]\<rparr>"

definition getAuthorizationToken ::
  "env \<Rightarrow> world \<Rightarrow> BlueButton \<Rightarrow> AuthData \<Rightarrow> string option \<Rightarrow> string option \<Rightarrow> string option
     \<Rightarrow> (failure + nat) \<times> world" where
  "getAuthorizationToken e w bb authData callbackRequestCode callbackRequestState
       callbackRequestError =
     (case validateCallbackRequestQueryParams authData callbackRequestCode
             callbackRequestState callbackRequestError of
        Inl err \<Rightarrow> (Inl err, w)
      | Inr _ \<Rightarrow>
          (let postData = generateTokenPostData bb authData callbackRequestCode;
               req = \<lparr> url = getAccessTokenUrl bb, body = URLSearchParams_new postData,
                       headers = SDK_HEADERS e, auth = None, params = None \<rparr>;
               w1 = post w req
           in case axios_post e req of
                Inl msg \<Rightarrow> (Inl (AxiosError msg), w1)
              | Inr resp \<Rightarrow>
                  (if present (data resp)
                   then (let (authToken, w2) = new_AuthorizationToken e w1 (data resp)
                         in (Inr authToken, w2))
                   else (Inl (Error AUTH_TOKEN_URL_RESPONSE_DATA_MISSING), w1))))"

text \<open>
  \<open>refreshAuthToken\<close> takes the reference of the token to refresh. It reads
  \<open>authToken.refreshToken\<close> while building the request (a \<open>TypeError\<close> when the
  reference is to no object), and passes \<open>resp.data\<close> to the constructor unchecked,
  returning the new instance.
\<close>

definition refreshAuthToken ::
  "env \<Rightarrow> world \<Rightarrow> nat \<Rightarrow> BlueButton \<Rightarrow> (failure + nat) \<times> world" where
  "refreshAuthToken e w authToken bb =
     (let tokenUrl = getAccessTokenUrl bb
      in case deref w authToken of
           None \<Rightarrow> (Inl TypeError, w)
         | Some this \<Rightarrow>
             (let req = \<lparr> url = tokenUrl, body = ObjectLiteral [],
                          headers = SDK_HEADERS e,
                          auth = Some \<lparr> username = clientId bb, password = clientSecret bb \<rparr>,
                          params = Some
                            [ (''grant_type'', Str ''refresh_token''),
                              (''client_id'', Str (clientId bb)),
                              (''refresh_token'', get_refreshToken this) ] \<rparr>;
                  w1 = post w req
              in case axios_post e req of
                   Inl msg \<Rightarrow> (Inl (AxiosError msg), w1)
                 | Inr resp \<Rightarrow> (let (r, w2) = new_AuthorizationToken e w1 (data resp)
                                in (Inr r, w2))))"

section \<open>Properties of the encoder\<close>

text \<open>
  The three chained \<open>replace\<close> calls of \<open>base64URLEncode\<close> are a character map followed
  by a filter, which is the encoder as the specification describes it.
\<close>

lemma replace_g_char: "replace_g c [d] s = map (\<lambda>x. if x = c then d else x) s"
  by (induction s) (auto simp: replace_g_def)

lemma replace_g_drop: "replace_g c [] s = filter (\<lambda>x. x \<noteq> c) s"
  by (induction s) (auto simp: replace_g_def)

lemma base64URLEncode_refines: "base64URLEncode b = base64UrlEncode_spec b"
proof -
  have "(\<lambda>x. if (if x = CHR ''+'' then CHR ''-'' else x) = CHR ''/'' then CHR ''_''
             else if x = CHR ''+'' then CHR ''-'' else x)
      = (\<lambda>c. if c = CHR ''+'' then CHR ''-'' else if c = CHR ''/'' then CHR ''_'' else c)"
    by (rule ext) simp
  then show ?thesis
    by (simp add: base64URLEncode_def base64UrlEncode_spec_def replace_g_char replace_g_drop
        comp_def)
qed

text \<open>
  The encoder only emits letters, digits, \<open>-\<close> and \<open>_\<close>, so a verifier, a state and a
  challenge are spliced into a URL without reserved characters.
\<close>

lemma sextet_in_alphabet: "sextet n \<in> set base64_alphabet"
proof -
  have "length base64_alphabet = 64" by (simp add: base64_alphabet_def)
  then show ?thesis unfolding sextet_def by (intro nth_mem) simp
qed

lemma toString_base64_chars:
  "set (toString_base64 b) \<subseteq> insert (CHR ''='') (set base64_alphabet)"
  by (induction b rule: toString_base64.induct) (simp_all add: Let_def sextet_in_alphabet)

lemma base64URLEncode_url_safe:
  "set (base64URLEncode b) \<subseteq>
     set ''ABCDEFGHIJKLMNOPQRSTUVWXYZabcdefghijklmnopqrstuvwxyz0123456789-_''"
proof
  define f where
    "f = (\<lambda>c. if c = CHR ''+'' then CHR ''-'' else if c = CHR ''/'' then CHR ''_'' else c)"
  have safe: "f ` set base64_alphabet
      \<subseteq> set ''ABCDEFGHIJKLMNOPQRSTUVWXYZabcdefghijklmnopqrstuvwxyz0123456789-_''"
    by (simp add: f_def base64_alphabet_def)
  have pad: "f (CHR ''='') = CHR ''=''"
    by (simp add: f_def)
  fix y assume "y \<in> set (base64URLEncode b)"
  then have "y \<in> f ` set (toString_base64 b)" and ne: "y \<noteq> CHR ''=''"
    by (simp_all add: base64URLEncode_refines base64UrlEncode_spec_def f_def)
  then obtain x where x: "x \<in> set (toString_base64 b)" and y: "y = f x"
    by blast
  from y ne pad have "x \<noteq> CHR ''=''" by blast
  with x toString_base64_chars [of b] have "x \<in> set base64_alphabet" by blast
  with y have "y \<in> f ` set base64_alphabet" by blast
  with safe show
    "y \<in> set ''ABCDEFGHIJKLMNOPQRSTUVWXYZabcdefghijklmnopqrstuvwxyz0123456789-_''"
    by blast
qed

lemma toString_base64_length:
  "length (toString_base64 b) = 4 * ((length b + 2) div 3)"
proof (induction b rule: toString_base64.induct)
  case (4 a b c rest)
  have "(length (a # b # c # rest) + 2) div 3 = Suc ((length rest + 2) div 3)" by simp
  with 4 show ?case by (simp add: Let_def)
qed (simp_all add: Let_def)

section \<open>Callback validation\<close>

text \<open>
  Claim C1. \<open>validateCallbackRequestQueryParams\<close> checks in this order, the first match
  winning: the error \<open>access_denied\<close>, then a missing or empty code, then a missing or
  empty state, then a state different from \<open>authData.state\<close>; otherwise it returns
  normally. Each outcome is characterised by the checks before it having passed. For
  every \<open>authData\<close>, the call with \<open>error = "access_denied"\<close> and neither code nor state
  fails with \<open>CALLBACK_ACCESS_DENIED\<close>.
\<close>

theorem validateCallback_order:
  "(validateCallbackRequestQueryParams authData code st err = Inl (Error CALLBACK_ACCESS_DENIED)
      \<longleftrightarrow> err = Some ''access_denied'')
 \<and> (validateCallbackRequestQueryParams authData code st err = Inl (Error CALLBACK_ACCESS_CODE_MISSING)
      \<longleftrightarrow> err \<noteq> Some ''access_denied'' \<and> (code = None \<or> code = Some ''''))
 \<and> (validateCallbackRequestQueryParams authData code st err = Inl (Error CALLBACK_STATE_MISSING)
      \<longleftrightarrow> err \<noteq> Some ''access_denied'' \<and> (\<exists>c. code = Some c \<and> c \<noteq> '''')
          \<and> (st = None \<or> st = Some ''''))
 \<and> (validateCallbackRequestQueryParams authData code st err = Inl (Error CALLBACK_STATE_DOES_NOT_MATCH)
      \<longleftrightarrow> err \<noteq> Some ''access_denied'' \<and> (\<exists>c. code = Some c \<and> c \<noteq> '''')
          \<and> (\<exists>s. st = Some s \<and> s \<noteq> '''' \<and> s \<noteq> state authData))
 \<and> (validateCallbackRequestQueryParams authData code st err = Inr ()
      \<longleftrightarrow> err \<noteq> Some ''access_denied'' \<and> (\<exists>c. code = Some c \<and> c \<noteq> '''')
          \<and> st = Some (state authData) \<and> state authData \<noteq> '''')
 \<and> validateCallbackRequestQueryParams authData None None (Some ''access_denied'')
      = Inl (Error CALLBACK_ACCESS_DENIED)"
  by (cases code; cases st) (auto simp: validateCallbackRequestQueryParams_def)

text \<open>The five calls of the specification's validation-order property.\<close>

theorem validateCallback_order_witness:
  "validateCallbackRequestQueryParams \<lparr>codeChallenge = ''C1'', verifier = ''V1'', state = ''S1''\<rparr>
     None None (Some ''access_denied'') = Inl (Error CALLBACK_ACCESS_DENIED)
 \<and> validateCallbackRequestQueryParams \<lparr>codeChallenge = ''C1'', verifier = ''V1'', state = ''S1''\<rparr>
     None (Some ''S1'') None = Inl (Error CALLBACK_ACCESS_CODE_MISSING)
 \<and> validateCallbackRequestQueryParams \<lparr>codeChallenge = ''C1'', verifier = ''V1'', state = ''S1''\<rparr>
     (Some ''abc'') None None = Inl (Error CALLBACK_STATE_MISSING)
 \<and> validateCallbackRequestQueryParams \<lparr>codeChallenge = ''C1'', verifier = ''V1'', state = ''S1''\<rparr>
     (Some ''abc'') (Some ''WRONG'') None = Inl (Error CALLBACK_STATE_DOES_NOT_MATCH)
 \<and> validateCallbackRequestQueryParams \<lparr>codeChallenge = ''C1'', verifier = ''V1'', state = ''S1''\<rparr>
     (Some ''abc'') (Some ''S1'') None = Inr ()"
  using validateCallback_order [of "\<lparr>codeChallenge = ''C1'', verifier = ''V1'', state = ''S1''\<rparr>" None None "Some ''access_denied''"]
    validateCallback_order [of "\<lparr>codeChallenge = ''C1'', verifier = ''V1'', state = ''S1''\<rparr>" None "Some ''S1''" None]
    validateCallback_order [of "\<lparr>codeChallenge = ''C1'', verifier = ''V1'', state = ''S1''\<rparr>" "Some ''abc''" None None]
    validateCallback_order [of "\<lparr>codeChallenge = ''C1'', verifier = ''V1'', state = ''S1''\<rparr>" "Some ''abc''" "Some ''WRONG''" None]
    validateCallback_order [of "\<lparr>codeChallenge = ''C1'', verifier = ''V1'', state = ''S1''\<rparr>" "Some ''abc''" "Some ''S1''" None]
  by simp

section \<open>PKCE data\<close>

text \<open>
  Claim C2. For the \<open>AuthData\<close> generated from any 32 random bytes (and any bytes for the
  state), \<open>codeChallenge\<close> is the specification's base64url encoding (standard base64,
  \<open>+\<close> to \<open>-\<close>, \<open>/\<close> to \<open>_\<close>, every \<open>=\<close> stripped) of the SHA-256 digest of the
  verifier; the same holds of \<open>generatePkceData\<close>. The challenge is a function of the
  verifier: two generated values with the same verifier have the same challenge.
\<close>

theorem generateAuthData_codeChallenge:
  "codeChallenge (generateAuthData H r1 r2)
     = base64UrlEncode_spec (H (verifier (generateAuthData H r1 r2)))
 \<and> pkce_codeChallenge (generatePkceData H r1)
     = base64UrlEncode_spec (H (pkce_verifier (generatePkceData H r1)))
 \<and> verifier (generateAuthData H r1 r2) = base64UrlEncode_spec r1
 \<and> (verifier (generateAuthData H r1 r2) = verifier (generateAuthData H r1' r2')
      \<longrightarrow> codeChallenge (generateAuthData H r1 r2) = codeChallenge (generateAuthData H r1' r2'))"
  by (simp add: generateAuthData_def generatePkceData_def sha256_def Let_def
      base64URLEncode_refines)

text \<open>
  An instance with a toy digest (the length of the string, then a fixed byte): the same
  verifier bytes and two different state bytes. The challenge is the encoding of the
  digest of the verifier, not of the verifier itself.
\<close>

theorem generateAuthData_codeChallenge_witness:
  "verifier (generateAuthData (\<lambda>s. [of_nat (length s), 0xff]) [0xfb, 0xff, 0xfe] [1])
     = verifier (generateAuthData (\<lambda>s. [of_nat (length s), 0xff]) [0xfb, 0xff, 0xfe] [2])
 \<and> verifier (generateAuthData (\<lambda>s. [of_nat (length s), 0xff]) [0xfb, 0xff, 0xfe] [1])
     = ''-__-''
 \<and> codeChallenge (generateAuthData (\<lambda>s. [of_nat (length s), 0xff]) [0xfb, 0xff, 0xfe] [1])
     = codeChallenge (generateAuthData (\<lambda>s. [of_nat (length s), 0xff]) [0xfb, 0xff, 0xfe] [2])
 \<and> codeChallenge (generateAuthData (\<lambda>s. [of_nat (length s), 0xff]) [0xfb, 0xff, 0xfe] [1])
     = ''BP8''"
  (is "verifier ?A = verifier ?B \<and> _ \<and> _ \<and> _")
proof -
  have va: "verifier ?A = ''-__-''" and vb: "verifier ?B = ''-__-''"
    by (simp_all add: generateAuthData_def generatePkceData_def Let_def base64URLEncode_def
        replace_g_def sextet_def base64_alphabet_def)
  have enc: "base64UrlEncode_spec [4, 0xff] = ''BP8''"
    by (simp add: base64UrlEncode_spec_def sextet_def base64_alphabet_def)
  from generateAuthData_codeChallenge
    [of "\<lambda>s. [of_nat (length s), 0xff]" "[0xfb, 0xff, 0xfe]" "[1]" "[0xfb, 0xff, 0xfe]" "[2]"]
  have ch: "codeChallenge ?A = base64UrlEncode_spec [of_nat (length (verifier ?A)), 0xff]"
    and fn: "verifier ?A = verifier ?B \<longrightarrow> codeChallenge ?A = codeChallenge ?B"
    by blast+
  from ch va enc have ca: "codeChallenge ?A = ''BP8''"
    by simp
  with va vb fn show ?thesis by simp
qed

section \<open>The authorize URL\<close>

text \<open>
  Claim C3. \<open>generateAuthorizeUrl\<close> returns the template
  \<open>{baseUrl}/v{version}/o/authorize?client_id={id}&redirect_uri={callbackUrl}&state={state}&response_type=code&code_challenge_method=S256&code_challenge={challenge}\<close>
  by plain concatenation, nothing being escaped; on the specification's example it
  returns exactly the example's URL.
\<close>

theorem generateAuthorizeUrl_template:
  "generateAuthorizeUrl bb authData =
     baseUrl bb @ ''/v'' @ version bb @ ''/o/authorize?client_id='' @ clientId bb
       @ ''&redirect_uri='' @ callbackUrl bb @ ''&state='' @ state authData
       @ ''&response_type=code&code_challenge_method=S256&code_challenge=''
       @ codeChallenge authData
 \<and> generateAuthorizeUrl
       \<lparr> baseUrl = ''https://sandbox.example.gov'', version = ''2'', clientId = ''foo'',
         clientSecret = secret, callbackUrl = ''https://cb.example/'' \<rparr>
       \<lparr> codeChallenge = ''C1'', verifier = v, state = ''S1'' \<rparr>
     = ''https://sandbox.example.gov/v2/o/authorize?client_id=foo&redirect_uri=https://cb.example/&state=S1&response_type=code&code_challenge_method=S256&code_challenge=C1''"
  by (simp add: generateAuthorizeUrl_def getAuthorizationUrl_def)

section \<open>Token expiry\<close>

text \<open>
  Claim C4 says that a supplied \<open>expires_at\<close> is always copied. The constructor tests
  the truthiness of the field, so a response that supplies \<open>expires_at = 0\<close> gets the
  computed instant instead of the supplied value.
\<close>

theorem constructor_expiresAt_zero_counterexample:
  "expires_at \<lparr> access_token = ''a'', expires_in = 3600, token_type = ''Bearer'',
       AuthorizationTokenData.scope = [''profile''], refresh_token = ''r'',
       AuthorizationTokenData.patient = ''p1'', expires_at = Some 0 \<rparr> = Some 0
 \<and> expiresAt (AuthorizationToken_constructor 1700000000000
       \<lparr> access_token = ''a'', expires_in = 3600, token_type = ''Bearer'',
         AuthorizationTokenData.scope = [''profile''], refresh_token = ''r'',
         AuthorizationTokenData.patient = ''p1'', expires_at = Some 0 \<rparr>) = 1700003600000"
  by (simp add: AuthorizationToken_constructor_def)

text \<open>
  Claim C4, amended. \<open>expiresAt\<close> is always populated: if the response supplies a
  nonzero \<open>expires_at\<close>, \<open>expiresAt\<close> is exactly that value; if \<open>expires_at\<close> is absent
  or zero, \<open>expiresAt\<close> is the construction instant plus \<open>expiresIn\<close> seconds, in
  milliseconds.
\<close>

theorem constructor_expiresAt:
  "(\<forall>t. expires_at d = Some t \<and> t \<noteq> 0 \<longrightarrow> expiresAt (AuthorizationToken_constructor now d) = t)
 \<and> (expires_at d = None \<or> expires_at d = Some 0
      \<longrightarrow> expiresAt (AuthorizationToken_constructor now d) = now + expires_in d * 1000)
 \<and> expiresIn (AuthorizationToken_constructor now d) = expires_in d"
  by (auto simp: AuthorizationToken_constructor_def Let_def)

text \<open>
  The specification's two cases: a supplied \<open>expires_at = 1700000000000\<close> is copied, and
  \<open>expires_in = 3600\<close> without \<open>expires_at\<close> gives the construction instant plus
  3,600,000 ms.
\<close>

theorem constructor_expiresAt_witness:
  "expiresAt (AuthorizationToken_constructor 5
       \<lparr> access_token = ''a'', expires_in = 3600, token_type = ''Bearer'',
         AuthorizationTokenData.scope = [''profile''], refresh_token = ''r'',
         AuthorizationTokenData.patient = ''p1'', expires_at = Some 1700000000000 \<rparr>) = 1700000000000
 \<and> expiresAt (AuthorizationToken_constructor 1600000000000
       \<lparr> access_token = ''a'', expires_in = 3600, token_type = ''Bearer'',
         AuthorizationTokenData.scope = [''profile''], refresh_token = ''r'',
         AuthorizationTokenData.patient = ''p1'', expires_at = None \<rparr>) = 1600003600000"
  using constructor_expiresAt [of "\<lparr> access_token = ''a'', expires_in = 3600, token_type = ''Bearer'',
         AuthorizationTokenData.scope = [''profile''], refresh_token = ''r'',
         AuthorizationTokenData.patient = ''p1'', expires_at = Some 1700000000000 \<rparr>" 5]
    constructor_expiresAt [of "\<lparr> access_token = ''a'', expires_in = 3600, token_type = ''Bearer'',
         AuthorizationTokenData.scope = [''profile''], refresh_token = ''r'',
         AuthorizationTokenData.patient = ''p1'', expires_at = None \<rparr>" 1600000000000]
  by simp

text \<open>
  Claim C10. When the response supplies \<open>expires_at = 0\<close>, the constructor discards it
  and computes \<open>expiresAt\<close> as the construction instant plus \<open>expiresIn\<close> seconds, since
  the presence test is a truthiness test and \<open>0\<close> is falsy. So a supplied value (that
  the computation would not give anyway) is copied if and only if it is nonzero.
\<close>

theorem constructor_expires_at_zero_discarded:
  "(expires_at d = Some 0
      \<longrightarrow> expiresAt (AuthorizationToken_constructor now d) = now + expires_in d * 1000)
 \<and> (\<forall>t. expires_at d = Some t \<and> now + expires_in d * 1000 \<noteq> t
      \<longrightarrow> (expiresAt (AuthorizationToken_constructor now d) = t \<longleftrightarrow> t \<noteq> 0))
 \<and> \<not> truthy (Some 0)"
  by (auto simp: AuthorizationToken_constructor_def Let_def)

theorem constructor_expires_at_zero_discarded_witness:
  "expiresAt (AuthorizationToken_constructor 1700000000000
       \<lparr> access_token = ''a'', expires_in = 60, token_type = ''Bearer'',
         AuthorizationTokenData.scope = [''profile''], refresh_token = ''r'',
         AuthorizationTokenData.patient = ''p1'', expires_at = Some 0 \<rparr>) = 1700000060000
 \<and> expiresAt (AuthorizationToken_constructor 1700000000000
       \<lparr> access_token = ''a'', expires_in = 60, token_type = ''Bearer'',
         AuthorizationTokenData.scope = [''profile''], refresh_token = ''r'',
         AuthorizationTokenData.patient = ''p1'', expires_at = Some 0 \<rparr>) \<noteq> 0"
  using constructor_expires_at_zero_discarded [of "\<lparr> access_token = ''a'', expires_in = 60, token_type = ''Bearer'',
         AuthorizationTokenData.scope = [''profile''], refresh_token = ''r'',
         AuthorizationTokenData.patient = ''p1'', expires_at = Some 0 \<rparr>" 1700000000000]
  by simp

text \<open>
  The wire projection of a constructed token always carries an \<open>expires_at\<close>, and gives
  back the other fields of the response unchanged.
\<close>

lemma getTokenData_constructor:
  "getTokenData (AuthorizationToken_constructor now d)
     = d\<lparr>expires_at := Some (expiresAt (AuthorizationToken_constructor now d))\<rparr>"
  by (cases d) (simp add: getTokenData_def AuthorizationToken_constructor_def Let_def)

section \<open>Token post data\<close>

text \<open>
  Claim C7 says that the \<open>code\<close> key is omitted when the callback code is absent. The
  object literal of \<open>generateTokenPostData\<close> always writes \<open>code: callbackCode\<close>, so
  without a callback code the key is there and holds \<open>undefined\<close>; a
  \<open>URLSearchParams\<close> built from that object carries the pair \<open>code=undefined\<close>.
\<close>

theorem generateTokenPostData_code_key_counterexample:
  "has_key ''code''
     (generateTokenPostData
        \<lparr> baseUrl = ''https://sandbox.example.gov'', version = ''2'', clientId = ''foo'',
          clientSecret = ''bar'', callbackUrl = ''https://cb.example/'' \<rparr>
        \<lparr> codeChallenge = ''C1'', verifier = ''V1'', state = ''S1'' \<rparr> None)
 \<and> URLSearchParams_new
     (generateTokenPostData
        \<lparr> baseUrl = ''https://sandbox.example.gov'', version = ''2'', clientId = ''foo'',
          clientSecret = ''bar'', callbackUrl = ''https://cb.example/'' \<rparr>
        \<lparr> codeChallenge = ''C1'', verifier = ''V1'', state = ''S1'' \<rparr> None)
   = URLSearchParams
       [ (''client_id'', ''foo''), (''client_secret'', ''bar''), (''code'', ''undefined''),
         (''grant_type'', ''authorization_code''), (''redirect_uri'', ''https://cb.example/''),
         (''code_verifier'', ''V1''), (''code_challenge'', ''C1'') ]"
  by (simp add: generateTokenPostData_def has_key_def Object_keys_def URLSearchParams_new_def)

text \<open>
  Claim C7, amended. For every config, \<open>authData\<close> and callback code,
  \<open>generateTokenPostData\<close> returns an object with exactly the keys \<open>client_id\<close>,
  \<open>client_secret\<close>, \<open>code\<close>, \<open>grant_type\<close>, \<open>redirect_uri\<close>, \<open>code_verifier\<close>,
  \<open>code_challenge\<close>, where \<open>grant_type\<close> is \<open>authorization_code\<close>, \<open>client_id\<close>,
  \<open>client_secret\<close> and \<open>redirect_uri\<close> come from the config, \<open>code_verifier\<close> and
  \<open>code_challenge\<close> from \<open>authData\<close>; \<open>code\<close> holds the callback code when there is one,
  and when there is none the key is still present and holds \<open>undefined\<close>.
\<close>

theorem generateTokenPostData_keys:
  "Object_keys (generateTokenPostData bb authData callbackCode)
     = [''client_id'', ''client_secret'', ''code'', ''grant_type'', ''redirect_uri'',
        ''code_verifier'', ''code_challenge'']
 \<and> read_prop (generateTokenPostData bb authData callbackCode) ''client_id'' = Str (clientId bb)
 \<and> read_prop (generateTokenPostData bb authData callbackCode) ''client_secret''
     = Str (clientSecret bb)
 \<and> read_prop (generateTokenPostData bb authData callbackCode) ''grant_type''
     = Str ''authorization_code''
 \<and> read_prop (generateTokenPostData bb authData callbackCode) ''redirect_uri''
     = Str (callbackUrl bb)
 \<and> read_prop (generateTokenPostData bb authData callbackCode) ''code_verifier''
     = Str (verifier authData)
 \<and> read_prop (generateTokenPostData bb authData callbackCode) ''code_challenge''
     = Str (codeChallenge authData)
 \<and> read_prop (generateTokenPostData bb authData (Some c)) ''code'' = Str c
 \<and> read_prop (generateTokenPostData bb authData None) ''code'' = Undefined
 \<and> has_key ''code'' (generateTokenPostData bb authData None)"
  by (simp add: generateTokenPostData_def has_key_def Object_keys_def read_prop_def)

section \<open>The exchange protocol\<close>

text \<open>
  Claim C6. Validation runs before any network call: on every input on which
  \<open>validateCallbackRequestQueryParams\<close> fails, \<open>getAuthorizationToken\<close> fails with
  exactly that error and leaves the world as it was, so no request has been handed to
  \<open>axios.post\<close> (and no token object created).
\<close>

theorem getAuthorizationToken_validation_first:
  assumes "validateCallbackRequestQueryParams authData code st err = Inl failed"
  shows "getAuthorizationToken e w bb authData code st err = (Inl failed, w)"
  using assms by (simp add: getAuthorizationToken_def)

text \<open>A state mismatch, with a transport that would reject any request it saw.\<close>

theorem getAuthorizationToken_validation_first_witness:
  "validateCallbackRequestQueryParams \<lparr> codeChallenge = ''C1'', verifier = ''V1'', state = ''S1'' \<rparr>
       (Some ''abc'') (Some ''WRONG'') None = Inl (Error CALLBACK_STATE_DOES_NOT_MATCH)
 \<and> getAuthorizationToken
       \<lparr> SDK_HEADERS = [], axios_post = (\<lambda>req. Inl ''unreachable''), moment_now = 0 \<rparr>
       \<lparr> objects = [], posted = [] \<rparr>
       \<lparr> baseUrl = ''https://sandbox.example.gov'', version = ''2'', clientId = ''foo'',
         clientSecret = ''bar'', callbackUrl = ''https://cb.example/'' \<rparr>
       \<lparr> codeChallenge = ''C1'', verifier = ''V1'', state = ''S1'' \<rparr>
       (Some ''abc'') (Some ''WRONG'') None
     = (Inl (Error CALLBACK_STATE_DOES_NOT_MATCH), \<lparr> objects = [], posted = [] \<rparr>)"
proof -
  have v: "validateCallbackRequestQueryParams
       \<lparr> codeChallenge = ''C1'', verifier = ''V1'', state = ''S1'' \<rparr>
       (Some ''abc'') (Some ''WRONG'') None = Inl (Error CALLBACK_STATE_DOES_NOT_MATCH)"
    by (simp add: validateCallbackRequestQueryParams_def)
  from getAuthorizationToken_validation_first [OF v] v show ?thesis by simp
qed

text \<open>
  Claim C5. After validation has passed and the POST to the token endpoint has been
  answered: if the response carries a body, a new \<open>AuthorizationToken\<close> constructed from
  that body is returned; if the body is missing, the operation fails with
  \<open>AUTH_TOKEN_URL_RESPONSE_DATA_MISSING\<close>. It fails with that error if and only if the
  response has no body.
\<close>

theorem getAuthorizationToken_response_body:
  assumes valid: "validateCallbackRequestQueryParams authData code st err = Inr ()"
    and req: "req = \<lparr> url = baseUrl bb @ ''/v'' @ version bb @ ''/o/token/'',
                      body = URLSearchParams_new (generateTokenPostData bb authData code),
                      headers = SDK_HEADERS e, auth = None, params = None \<rparr>"
    and resp: "axios_post e req = Inr resp"
  shows "(\<forall>d. data resp = Some d \<longrightarrow>
            getAuthorizationToken e w bb authData code st err
              = (Inr (length (objects w)),
                 \<lparr> objects = objects w @ [Token (AuthorizationToken_constructor (moment_now e) d)],
                   posted = posted w @ [req] \<rparr>))
       \<and> (data resp = None \<longrightarrow>
            getAuthorizationToken e w bb authData code st err
              = (Inl (Error AUTH_TOKEN_URL_RESPONSE_DATA_MISSING),
                 \<lparr> objects = objects w, posted = posted w @ [req] \<rparr>))
       \<and> (fst (getAuthorizationToken e w bb authData code st err)
             = Inl (Error AUTH_TOKEN_URL_RESPONSE_DATA_MISSING)
           \<longleftrightarrow> data resp = None)"
  using assms
  by (cases "data resp")
     (simp_all add: getAuthorizationToken_def getAccessTokenUrl_def Let_def post_def
        new_AuthorizationToken_def)

text \<open>
  The specification's missing-body and happy-path exchanges, with the request that
  reaches the transport.
\<close>

theorem getAuthorizationToken_response_body_witness:
  "getAuthorizationToken
       \<lparr> SDK_HEADERS = [(''X-SDK'', ''node'')], axios_post = (\<lambda>req. Inr \<lparr> data = None \<rparr>),
         moment_now = 1700000000000 \<rparr>
       \<lparr> objects = [], posted = [] \<rparr>
       \<lparr> baseUrl = ''https://sandbox.example.gov'', version = ''2'', clientId = ''foo'',
         clientSecret = ''bar'', callbackUrl = ''https://cb.example/'' \<rparr>
       \<lparr> codeChallenge = ''C1'', verifier = ''V1'', state = ''S1'' \<rparr>
       (Some ''abc'') (Some ''S1'') None
     = (Inl (Error AUTH_TOKEN_URL_RESPONSE_DATA_MISSING),
        \<lparr> objects = [],
          posted = [\<lparr> url = ''https://sandbox.example.gov/v2/o/token/'',
                     body = URLSearchParams
                       [ (''client_id'', ''foo''), (''client_secret'', ''bar''),
                         (''code'', ''abc''), (''grant_type'', ''authorization_code''),
                         (''redirect_uri'', ''https://cb.example/''),
                         (''code_verifier'', ''V1''), (''code_challenge'', ''C1'') ],
                     headers = [(''X-SDK'', ''node'')], auth = None, params = None \<rparr>] \<rparr>)
 \<and> getAuthorizationToken
       \<lparr> SDK_HEADERS = [(''X-SDK'', ''node'')],
         axios_post = (\<lambda>req. Inr \<lparr> data = Some
           \<lparr> access_token = ''a'', expires_in = 60, token_type = ''Bearer'',
             AuthorizationTokenData.scope = [''profile''], refresh_token = ''r'',
             AuthorizationTokenData.patient = ''p1'', expires_at = None \<rparr> \<rparr>),
         moment_now = 1700000000000 \<rparr>
       \<lparr> objects = [], posted = [] \<rparr>
       \<lparr> baseUrl = ''https://sandbox.example.gov'', version = ''2'', clientId = ''foo'',
         clientSecret = ''bar'', callbackUrl = ''https://cb.example/'' \<rparr>
       \<lparr> codeChallenge = ''C1'', verifier = ''V1'', state = ''S1'' \<rparr>
       (Some ''abc'') (Some ''S1'') None
     = (Inr 0,
        \<lparr> objects = [Token \<lparr> accessToken = ''a'', expiresIn = 60, expiresAt = 1700000060000,
                       tokenType = ''Bearer'', scope = [''profile''], refreshToken = ''r'',
                       patient = ''p1'' \<rparr>],
          posted = [\<lparr> url = ''https://sandbox.example.gov/v2/o/token/'',
                     body = URLSearchParams
                       [ (''client_id'', ''foo''), (''client_secret'', ''bar''),
                         (''code'', ''abc''), (''grant_type'', ''authorization_code''),
                         (''redirect_uri'', ''https://cb.example/''),
                         (''code_verifier'', ''V1''), (''code_challenge'', ''C1'') ],
                     headers = [(''X-SDK'', ''node'')], auth = None, params = None \<rparr>] \<rparr>)"
  (is "getAuthorizationToken ?e1 ?w ?bb ?ad ?c ?s ?er = _ \<and> getAuthorizationToken ?e2 _ _ _ _ _ _ = _")
proof -
  have valid: "validateCallbackRequestQueryParams ?ad ?c ?s ?er = Inr ()"
    by (simp add: validateCallbackRequestQueryParams_def)
  have r1: "axios_post ?e1 req = Inr \<lparr> data = None \<rparr>" for req
    by simp
  have r2: "axios_post ?e2 req = Inr \<lparr> data = Some
           \<lparr> access_token = ''a'', expires_in = 60, token_type = ''Bearer'',
             AuthorizationTokenData.scope = [''profile''], refresh_token = ''r'',
             AuthorizationTokenData.patient = ''p1'', expires_at = None \<rparr> \<rparr>" for req
    by simp
  from getAuthorizationToken_response_body [OF valid refl r1, where bb = ?bb and w = ?w]
       getAuthorizationToken_response_body [OF valid refl r2, where bb = ?bb and w = ?w]
  show ?thesis
    by (simp add: generateTokenPostData_def URLSearchParams_new_def
        AuthorizationToken_constructor_def)
qed

text \<open>
  Over all inputs, the missing-data error arises in no other way: validation has
  passed, the transport has answered, and the answer has no body.
\<close>

lemma present_iff: "present x \<longleftrightarrow> x \<noteq> None"
  by (cases x) simp_all

lemma getAuthorizationToken_missing_iff:
  "fst (getAuthorizationToken e w bb authData code st err)
     = Inl (Error AUTH_TOKEN_URL_RESPONSE_DATA_MISSING)
   \<longleftrightarrow> validateCallbackRequestQueryParams authData code st err = Inr ()
     \<and> (\<exists>resp. axios_post e \<lparr> url = baseUrl bb @ ''/v'' @ version bb @ ''/o/token/'',
                      body = URLSearchParams_new (generateTokenPostData bb authData code),
                      headers = SDK_HEADERS e, auth = None, params = None \<rparr> = Inr resp
            \<and> data resp = None)"
  by (auto simp: getAuthorizationToken_def getAccessTokenUrl_def Let_def post_def
      new_AuthorizationToken_def validateCallbackRequestQueryParams_def present_iff
      split: sum.splits option.splits if_splits)

section \<open>The refresh protocol\<close>





text \<open>
  The asymmetry with the exchange: against a transport that answers without a body, the
  exchange reports the missing data and creates no object, while the refresh creates
  and returns an instance with undefined fields.
\<close>

lemma refresh_exchange_asymmetry:
  assumes "deref w authToken = Some this"
    and "validateCallbackRequestQueryParams authData code st err = Inr ()"
    and "\<forall>req. axios_post e req = Inr \<lparr> data = None \<rparr>"
  shows "fst (getAuthorizationToken e w bb authData code st err)
           = Inl (Error AUTH_TOKEN_URL_RESPONSE_DATA_MISSING)"
    and "objects (snd (getAuthorizationToken e w bb authData code st err)) = objects w"
    and "fst (refreshAuthToken e w authToken bb) = Inr (length (objects w))"
    and "objects (snd (refreshAuthToken e w authToken bb))
           = objects w @ [UndefinedFields (moment_now e)]"
  using assms
  by (simp_all add: refreshAuthToken_def getAuthorizationToken_def Let_def
      new_AuthorizationToken_def post_def)

end
